theory Spec2Isabelle
  imports Complex_Main "HOL-Library.Sublist"
begin

section \<open>The PR review bot (\<^verbatim>\<open>pr_review_bot.py\<close>)\<close>

text \<open>
  A shallow embedding of the class \<^verbatim>\<open>PRReviewBot\<close>. The bot talks to two collaborators:
  the \<^verbatim>\<open>git\<close> executable, through \<^verbatim>\<open>subprocess.run\<close>, and the Ollama endpoint, through
  \<^verbatim>\<open>requests.post\<close>. Both are parameters of the model (an environment of two functions
  stepping an external state of any type), every exception the code can raise is a
  value of the type \<open>error\<close>, and every call to a collaborator is appended, with its
  answer, to a log kept in the state.

  Python strings are modelled as \<open>string\<close>; a character stands for the code point of
  the same number, so the model covers the texts whose code points are below 256.
\<close>

subsection \<open>Data model\<close>

text \<open>
  The value \<^verbatim>\<open>response.json()\<close> returns: a parsed JSON document. A \<^verbatim>\<open>dict\<close> is the list of
  its items (the keys of a Python dict are distinct).
\<close>

datatype jvalue =
    JNull
  | JBool bool
  | JNumber real
  | JString string
  | JArray "jvalue list"
  | JObject "(string \<times> jvalue) list"

text \<open>
  \<^verbatim>\<open>FileReview\<close> is a dataclass of two fields. Python does not enforce the annotation
  \<^verbatim>\<open>comments: str\<close>: the field holds whatever \<^verbatim>\<open>_call_model\<close> returned, a JSON value.
\<close>

record FileReview =
  path :: string
  comments :: jvalue

text \<open>The three attributes \<^verbatim>\<open>__init__\<close> sets.\<close>

record PRReviewBot =
  repo_path :: string
  model :: string
  endpoint :: string

definition init :: "string \<Rightarrow> string \<Rightarrow> string \<Rightarrow> PRReviewBot" where
  "init rp m ep = \<lparr>repo_path = rp, model = m, endpoint = ep\<rparr>"

text \<open>The constructor called with no argument: the defaults of \<^verbatim>\<open>__init__\<close>.\<close>

definition init_default :: PRReviewBot where
  "init_default = init ''.'' ''llama3'' ''http://localhost:11434/api/generate''"

text \<open>
  The exceptions that leave the code; none is caught or wrapped anywhere.
  \<^verbatim>\<open>subprocess.run\<close> raises \<^verbatim>\<open>ValueError\<close> when an argument cannot be passed to a process (a
  NUL character in a ref, a path or \<^verbatim>\<open>repo_path\<close>), \<^verbatim>\<open>OSError\<close> when the process cannot be
  started, \<^verbatim>\<open>UnicodeDecodeError\<close> when, under \<^verbatim>\<open>text=True\<close>, the captured output is not valid
  text, and, under \<^verbatim>\<open>check=True\<close>, \<^verbatim>\<open>CalledProcessError\<close> (exit status, command, captured
  output and error output) when the process exits with a status other than zero.
  \<^verbatim>\<open>requests.post\<close> raises a \<^verbatim>\<open>RequestException\<close> (connection failure, timeout),
  \<^verbatim>\<open>raise_for_status\<close> raises \<^verbatim>\<open>HTTPError\<close>, \<^verbatim>\<open>response.json()\<close> raises \<^verbatim>\<open>JSONDecodeError\<close>,
  and \<^verbatim>\<open>data.get\<close> raises \<^verbatim>\<open>AttributeError\<close> when \<^verbatim>\<open>data\<close> is not a dict.
\<close>

datatype error =
    ValueError string
  | OSError string
  | UnicodeDecodeError string
  | CalledProcessError int "string list" string string
  | RequestException string
  | HTTPError nat
  | JSONDecodeError
  | AttributeError

text \<open>
  The code defines no exception class of its own. The specification's two kinds of error
  are read by the class of the exception: a \<open>VcsError\<close> is an exception by which the
  \<^verbatim>\<open>subprocess\<close> module reports that the command failed (it could not be started, or it
  exited with a status other than zero); an \<open>InferenceError\<close> is an exception of the
  \<^verbatim>\<open>requests\<close> library (failed request, error status, body that is not JSON). The built-in
  \<^verbatim>\<open>ValueError\<close>, \<^verbatim>\<open>UnicodeDecodeError\<close> and \<^verbatim>\<open>AttributeError\<close> are neither.
\<close>

fun is_VcsError :: "error \<Rightarrow> bool" where
  "is_VcsError (OSError _) = True"
| "is_VcsError (CalledProcessError _ _ _ _) = True"
| "is_VcsError _ = False"

fun is_InferenceError :: "error \<Rightarrow> bool" where
  "is_InferenceError (RequestException _) = True"
| "is_InferenceError (HTTPError _) = True"
| "is_InferenceError JSONDecodeError = True"
| "is_InferenceError _ = False"

subsection \<open>The collaborators\<close>

text \<open>
  What \<^verbatim>\<open>subprocess.run(cmd, cwd=..., text=True, capture_output=True)\<close> gives before the
  check of the exit status: a completed process whose output has been decoded
  (\<open>Ran\<close>); no process, because an argument is not valid (\<open>InvalidArgument\<close>) or because
  the system could not start it (\<open>SpawnError\<close>); or a process whose output could not be
  decoded (\<open>Undecodable\<close>).
\<close>

datatype completed_process =
  CompletedProcess (returncode: int) (stdout: string) (stderr: string)

datatype proc_outcome =
    Ran completed_process
  | InvalidArgument string
  | SpawnError string
  | Undecodable string

text \<open>
  What \<^verbatim>\<open>requests.post\<close> gives: a response object or an exception. Of the response the code
  uses two methods: \<^verbatim>\<open>raise_for_status()\<close>, which depends on the status code, and \<^verbatim>\<open>json()\<close>;
  \<open>json\<close> is the parsed body, \<open>None\<close> when the body does not parse.
\<close>

datatype response =
  Response (status_code: nat) (json: "jvalue option")

datatype post_outcome = Responded response | RequestFailed string

text \<open>
  \<^verbatim>\<open>Response.raise_for_status\<close> of the \<^verbatim>\<open>requests\<close> library: it raises \<^verbatim>\<open>HTTPError\<close> for the
  client errors (400 to 499) and the server errors (500 to 599), and returns for every other
  status code. \<open>None\<close> stands for returning, \<open>Some status\<close> for raising.
\<close>

definition raise_for_status :: "response \<Rightarrow> nat option" where
  "raise_for_status r =
     (if 400 \<le> status_code r \<and> status_code r < 500 then Some (status_code r)
      else if 500 \<le> status_code r \<and> status_code r < 600 then Some (status_code r)
      else None)"

text \<open>The success statuses of HTTP, the specification's 2xx.\<close>

definition is_success_status :: "nat \<Rightarrow> bool" where
  "is_success_status n \<longleftrightarrow> 200 \<le> n \<and> n < 300"

text \<open>
  The environment: \<open>subprocess_run E cmd cwd\<close> and \<open>requests_post E url payload timeout\<close>
  answer a call and step the external state.
\<close>

record 'x env =
  subprocess_run :: "string list \<Rightarrow> string \<Rightarrow> 'x \<Rightarrow> proc_outcome \<times> 'x"
  requests_post :: "string \<Rightarrow> jvalue \<Rightarrow> nat \<Rightarrow> 'x \<Rightarrow> post_outcome \<times> 'x"

text \<open>A logged call: its arguments and the collaborator's answer.\<close>

datatype event =
    SubprocessRun "string list" string proc_outcome
  | RequestsPost string jvalue nat post_outcome

fun is_post :: "event \<Rightarrow> bool" where
  "is_post (RequestsPost _ _ _ _) = True"
| "is_post (SubprocessRun _ _ _) = False"

text \<open>The answer part of a logged call.\<close>

fun answer :: "event \<Rightarrow> proc_outcome + post_outcome" where
  "answer (SubprocessRun _ _ out) = Inl out"
| "answer (RequestsPost _ _ _ out) = Inr out"

text \<open>
  The state the methods run in: the object \<^verbatim>\<open>self\<close>, the log of the calls made so far,
  and the state of the world outside.
\<close>

record 'x world =
  self :: PRReviewBot
  calls :: "event list"
  ext :: 'x

subsection \<open>String operations of the Python library\<close>

text \<open>\<^verbatim>\<open>str.isspace\<close> on one character, for the code points below 256.\<close>

definition isspace :: "char \<Rightarrow> bool" where
  "isspace c \<longleftrightarrow> c \<in> set [CHR 0x09, CHR 0x0A, CHR 0x0B, CHR 0x0C, CHR 0x0D,
     CHR 0x1C, CHR 0x1D, CHR 0x1E, CHR 0x1F, CHR 0x20, CHR 0x85, CHR 0xA0]"

text \<open>\<^verbatim>\<open>s.strip()\<close>: leading and trailing whitespace removed.\<close>

definition strip :: "string \<Rightarrow> string" where
  "strip s = rev (dropWhile isspace (rev (dropWhile isspace s)))"

text \<open>
  The line boundaries of \<^verbatim>\<open>str.splitlines\<close> below 256; \<^verbatim>\<open>\r\n\<close> is one boundary, handled in
  \<open>splitlines_from\<close>.
\<close>

definition is_linebreak :: "char \<Rightarrow> bool" where
  "is_linebreak c \<longleftrightarrow> c \<in> set [CHR 0x0A, CHR 0x0B, CHR 0x0C, CHR 0x0D,
     CHR 0x1C, CHR 0x1D, CHR 0x1E, CHR 0x85]"

text \<open>
  \<^verbatim>\<open>s.splitlines()\<close>: \<open>cur\<close> is the line being read, reversed. A text that ends with a line
  boundary has no empty last line.
\<close>

fun splitlines_from :: "string \<Rightarrow> string \<Rightarrow> string list" where
  "splitlines_from cur [] = (if cur = [] then [] else [rev cur])"
| "splitlines_from cur (c # cs) =
     (if c = CHR 0x0D then
        (case cs of
           [] \<Rightarrow> [rev cur]
         | d # ds \<Rightarrow> if d = CHR 0x0A then rev cur # splitlines_from [] ds
                    else rev cur # splitlines_from [] (d # ds))
      else if is_linebreak c then rev cur # splitlines_from [] cs
      else splitlines_from (c # cur) cs)"

definition splitlines :: "string \<Rightarrow> string list" where
  "splitlines s = splitlines_from [] s"

text \<open>\<^verbatim>\<open>s.split('\n')\<close> and \<^verbatim>\<open>'\n'.join(lines)\<close>.\<close>

fun split_nl :: "string \<Rightarrow> string list" where
  "split_nl [] = [[]]"
| "split_nl (c # cs) =
     (if c = CHR 0x0A then [] # split_nl cs
      else (case split_nl cs of l # ls \<Rightarrow> (c # l) # ls | [] \<Rightarrow> [[c]]))"

fun join_nl :: "string list \<Rightarrow> string" where
  "join_nl [] = []"
| "join_nl [l] = l"
| "join_nl (l # ls) = l @ CHR 0x0A # join_nl ls"

subsection \<open>\<^verbatim>\<open>textwrap.dedent\<close>\<close>

text \<open>
  The function of the standard library (the implementation with regular expressions, of
  CPython up to 3.13), step by step:
  \<^item> \<^verbatim>\<open>_whitespace_only_re.sub('', text)\<close>, with the pattern \<^verbatim>\<open>^[ \t]+$\<close> in multi-line mode:
    every line made of spaces and tabs only becomes the empty line;
  \<^item> \<^verbatim>\<open>_leading_whitespace_re.findall(text)\<close>, with the pattern \<^verbatim>\<open>(^[ \t]*)(?:[^ \t\n])\<close>: the
    leading spaces and tabs of every line that is not empty;
  \<^item> the loop over these indents, which keeps in \<^verbatim>\<open>margin\<close> what they have in common;
  \<^item> \<^verbatim>\<open>if margin: text = re.sub(r'(?m)^' + margin, '', text)\<close>: the margin is removed from
    the start of every line that starts with it.
\<close>

definition is_blank :: "char \<Rightarrow> bool" where
  "is_blank c \<longleftrightarrow> c = CHR 0x20 \<or> c = CHR 0x09"

definition normalize_line :: "string \<Rightarrow> string" where
  "normalize_line l = (if list_all is_blank l then [] else l)"

definition indent_of :: "string \<Rightarrow> string" where
  "indent_of l = takeWhile is_blank l"

text \<open>
  \<^verbatim>\<open>for i, (x, y) in enumerate(zip(margin, indent)): if x != y: margin = margin[:i]; break\<close>.
  When the shorter of the two ends before a difference, \<^verbatim>\<open>margin\<close> is left as it is.
\<close>

fun cut_at_mismatch :: "string \<Rightarrow> string \<Rightarrow> string" where
  "cut_at_mismatch (x # xs) (y # ys) = (if x \<noteq> y then [] else x # cut_at_mismatch xs ys)"
| "cut_at_mismatch xs [] = xs"
| "cut_at_mismatch [] ys = []"

fun margin_step :: "string option \<Rightarrow> string \<Rightarrow> string option" where
  "margin_step None indent = Some indent"
| "margin_step (Some margin) indent =
     (if prefix margin indent then Some margin
      else if prefix indent margin then Some indent
      else Some (cut_at_mismatch margin indent))"

definition remove_margin :: "string \<Rightarrow> string \<Rightarrow> string" where
  "remove_margin margin l = (if prefix margin l then drop (length margin) l else l)"

definition dedent :: "string \<Rightarrow> string" where
  "dedent text =
     (let ls = map normalize_line (split_nl text);
          indents = map indent_of (filter (\<lambda>l. l \<noteq> []) ls)
      in case foldl margin_step None indents of
           None \<Rightarrow> join_nl ls
         | Some margin \<Rightarrow>
             if margin = [] then join_nl ls else join_nl (map (remove_margin margin) ls))"

subsection \<open>Git helpers\<close>

text \<open>
  \<^verbatim>\<open>_run_git\<close>: runs \<^verbatim>\<open>["git", *args]\<close> in \<^verbatim>\<open>self.repo_path\<close> with \<^verbatim>\<open>check=True\<close> and returns the
  captured standard output. Every exception of \<^verbatim>\<open>subprocess.run\<close> leaves the method as it is.
\<close>

definition run_git :: "'x env \<Rightarrow> string list \<Rightarrow> 'x world \<Rightarrow> (error + string) \<times> 'x world" where
  "run_git E args w =
     (let cmd = ''git'' # args;
          cwd = repo_path (self w);
          (out, x') = subprocess_run E cmd cwd (ext w);
          w' = w\<lparr>calls := calls w @ [SubprocessRun cmd cwd out], ext := x'\<rparr>
      in case out of
           InvalidArgument msg \<Rightarrow> (Inl (ValueError msg), w')
         | SpawnError msg \<Rightarrow> (Inl (OSError msg), w')
         | Undecodable msg \<Rightarrow> (Inl (UnicodeDecodeError msg), w')
         | Ran p \<Rightarrow>
             if returncode p \<noteq> 0
             then (Inl (CalledProcessError (returncode p) cmd (stdout p) (stderr p)), w')
             else (Inr (stdout p), w'))"

definition changed_files ::
  "'x env \<Rightarrow> string \<Rightarrow> string \<Rightarrow> 'x world \<Rightarrow> (error + string list) \<times> 'x world" where
  "changed_files E source target w =
     (case run_git E [''diff'', ''--name-only'', target @ ''..'' @ source] w of
        (Inl e, w') \<Rightarrow> (Inl e, w')
      | (Inr out, w') \<Rightarrow>
          (Inr (map strip (filter (\<lambda>line. strip line \<noteq> []) (splitlines out))), w'))"

definition file_diff ::
  "'x env \<Rightarrow> string \<Rightarrow> string \<Rightarrow> string \<Rightarrow> 'x world \<Rightarrow> (error + string) \<times> 'x world" where
  "file_diff E source target p w = run_git E [''diff'', target @ ''..'' @ source, ''--'', p] w"

definition file_content ::
  "'x env \<Rightarrow> string \<Rightarrow> string \<Rightarrow> 'x world \<Rightarrow> (error + string) \<times> 'x world" where
  "file_content E branch p w = run_git E [''show'', branch @ '':'' @ p] w"

subsection \<open>Ollama interaction\<close>

text \<open>
  \<^verbatim>\<open>_call_model\<close>: one \<^verbatim>\<open>requests.post\<close> to \<^verbatim>\<open>self.endpoint\<close> with the JSON payload and the
  timeout 300, then \<^verbatim>\<open>raise_for_status()\<close>, \<^verbatim>\<open>json()\<close> and \<^verbatim>\<open>data.get("response", "")\<close>.
\<close>

definition call_model :: "'x env \<Rightarrow> string \<Rightarrow> 'x world \<Rightarrow> (error + jvalue) \<times> 'x world" where
  "call_model E prompt w =
     (let url = endpoint (self w);
          payload = JObject [(''model'', JString (model (self w))),
                             (''prompt'', JString prompt),
                             (''stream'', JBool False)];
          (out, x') = requests_post E url payload 300 (ext w);
          w' = w\<lparr>calls := calls w @ [RequestsPost url payload 300 out], ext := x'\<rparr>
      in case out of
           RequestFailed msg \<Rightarrow> (Inl (RequestException msg), w')
         | Responded r \<Rightarrow>
             (case raise_for_status r of
                Some status \<Rightarrow> (Inl (HTTPError status), w')
              | None \<Rightarrow>
                  (case json r of
                     None \<Rightarrow> (Inl JSONDecodeError, w')
                   | Some (JObject items) \<Rightarrow>
                       (case map_of items ''response'' of
                          None \<Rightarrow> (Inr (JString []), w')
                        | Some v \<Rightarrow> (Inr v, w'))
                   | Some _ \<Rightarrow> (Inl AttributeError, w'))))"

text \<open>The f-string of \<^verbatim>\<open>_analyze\<close>, before \<^verbatim>\<open>dedent\<close> and \<^verbatim>\<open>strip\<close>.\<close>

definition prompt_template ::
  "string \<Rightarrow> string \<Rightarrow> string \<Rightarrow> string \<Rightarrow> string \<Rightarrow> string" where
  "prompt_template file_path diff full_content source target =
     ''\<newline>'' @
     ''            You are an expert software engineer assisting with pull request reviews.\<newline>'' @
     ''            Compare two branches: '' @ target @ '' (base) and '' @ source @ '' (feature).\<newline>'' @
     ''            A developer has changed the file `'' @ file_path @ ''`. You are given the full\<newline>'' @
     ''            content of the file from the feature branch along with the diff patch\<newline>'' @
     ''            between the base and feature branch. Consider the entire file but limit\<newline>'' @
     ''            your comments strictly to lines that are part of the diff. Highlight\<newline>'' @
     ''            potential bugs, wrong logic, bad coding practices, and opportunities for\<newline>'' @
     ''            improvement. Be concise and reference line numbers from the patch when\<newline>'' @
     ''            possible.\<newline>'' @
     ''\<newline>'' @
     ''            <file_content>\<newline>'' @
     ''            '' @ full_content @ ''\<newline>'' @
     ''            </file_content>\<newline>'' @
     ''\<newline>'' @
     ''            <diff_patch>\<newline>'' @
     ''            '' @ diff @ ''\<newline>'' @
     ''            </diff_patch>\<newline>'' @
     ''\<newline>'' @
     ''            Provide your review now.\<newline>'' @
     ''            ''"

text \<open>The prompt \<^verbatim>\<open>_analyze\<close> sends: \<^verbatim>\<open>textwrap.dedent(f"""...""").strip()\<close>.\<close>

definition build_prompt ::
  "string \<Rightarrow> string \<Rightarrow> string \<Rightarrow> string \<Rightarrow> string \<Rightarrow> string" where
  "build_prompt file_path diff full_content source target =
     strip (dedent (prompt_template file_path diff full_content source target))"

definition analyze ::
  "'x env \<Rightarrow> string \<Rightarrow> string \<Rightarrow> string \<Rightarrow> string \<Rightarrow> string \<Rightarrow> 'x world
     \<Rightarrow> (error + jvalue) \<times> 'x world" where
  "analyze E file_path diff full_content source target w =
     call_model E (build_prompt file_path diff full_content source target) w"

subsection \<open>\<^verbatim>\<open>review\<close>\<close>

text \<open>
  The body of the \<^verbatim>\<open>for\<close> loop for one path: the diff, the content at the source ref, the
  analysis, and the \<^verbatim>\<open>FileReview\<close> to append. An exception in any of the three calls leaves
  the body at once.
\<close>

definition review_body ::
  "'x env \<Rightarrow> string \<Rightarrow> string \<Rightarrow> string \<Rightarrow> 'x world \<Rightarrow> (error + FileReview) \<times> 'x world" where
  "review_body E source target p w =
     (case file_diff E source target p w of
        (Inl e, w1) \<Rightarrow> (Inl e, w1)
      | (Inr diff, w1) \<Rightarrow>
          (case file_content E source p w1 of
             (Inl e, w2) \<Rightarrow> (Inl e, w2)
           | (Inr content, w2) \<Rightarrow>
               (case analyze E p diff content source target w2 of
                  (Inl e, w3) \<Rightarrow> (Inl e, w3)
                | (Inr c, w3) \<Rightarrow> (Inr \<lparr>path = p, comments = c\<rparr>, w3))))"

text \<open>
  The loop \<^verbatim>\<open>for path in files\<close>, with the list \<^verbatim>\<open>reviews\<close> built so far. There is no
  \<^verbatim>\<open>try\<close> in the code: an exception in the body ends the loop and the call.
\<close>

fun review_loop ::
  "'x env \<Rightarrow> string \<Rightarrow> string \<Rightarrow> string list \<Rightarrow> FileReview list \<Rightarrow> 'x world
     \<Rightarrow> (error + FileReview list) \<times> 'x world" where
  "review_loop E source target [] reviews w = (Inr reviews, w)"
| "review_loop E source target (p # files) reviews w =
     (case review_body E source target p w of
        (Inl e, w') \<Rightarrow> (Inl e, w')
      | (Inr r, w') \<Rightarrow> review_loop E source target files (reviews @ [r]) w')"

definition review ::
  "'x env \<Rightarrow> string \<Rightarrow> string \<Rightarrow> 'x world \<Rightarrow> (error + FileReview list) \<times> 'x world" where
  "review E source target w =
     (case changed_files E source target w of
        (Inl e, w') \<Rightarrow> (Inl e, w')
      | (Inr files, w') \<Rightarrow> review_loop E source target files [] w')"

text \<open>The calls made between two states: what the log gained.\<close>

definition new_calls :: "'x world \<Rightarrow> 'x world \<Rightarrow> event list" where
  "new_calls w w' = drop (length (calls w)) (calls w')"

subsection \<open>A concrete environment\<close>

text \<open>
  A small repository and a stubbed model, to run the definitions on: branch \<^verbatim>\<open>feature\<close>
  changes two files, branch \<^verbatim>\<open>cleanup\<close> deletes \<^verbatim>\<open>old.py\<close> (so \<^verbatim>\<open>git show cleanup:old.py\<close>
  fails) and changes another file, \<^verbatim>\<open>main\<close> compared with itself changes nothing,
  \<^verbatim>\<open>nosuch\<close> is not a ref, and branch \<^verbatim>\<open>legacy\<close> adds a file whose name is not valid UTF-8, so
  that the output of the listing cannot be decoded. As on every system, a NUL character
  in an argument is refused before a process is started. The external state counts the
  calls answered.
\<close>

definition demo_run :: "string list \<Rightarrow> string \<Rightarrow> nat \<Rightarrow> proc_outcome \<times> nat" where
  "demo_run cmd cwd n =
     (if list_ex (\<lambda>arg. CHR 0x00 \<in> set arg) (cwd # cmd)
        then (InvalidArgument ''embedded null byte'', Suc n)
      else if cmd = [''git'', ''diff'', ''--name-only'', ''main..feature'']
        then (Ran (CompletedProcess 0 ''hello.py\<newline>lib/util.py\<newline>'' ''''), Suc n)
      else if cmd = [''git'', ''diff'', ''--name-only'', ''main..cleanup'']
        then (Ran (CompletedProcess 0 ''old.py\<newline>hello.py\<newline>'' ''''), Suc n)
      else if cmd = [''git'', ''diff'', ''--name-only'', ''main..main'']
        then (Ran (CompletedProcess 0 '''' ''''), Suc n)
      else if cmd = [''git'', ''diff'', ''--name-only'', ''main..nosuch'']
        then (Ran (CompletedProcess 128 '''' ''fatal: bad revision''), Suc n)
      else if cmd = [''git'', ''diff'', ''--name-only'', ''main..legacy'']
        then (Undecodable ''invalid start byte'', Suc n)
      else if cmd = [''git'', ''show'', ''cleanup:old.py'']
        then (Ran (CompletedProcess 128 '''' ''fatal: path does not exist''), Suc n)
      else (Ran (CompletedProcess 0 ''text'' ''''), Suc n))"

definition demo_post :: "string \<Rightarrow> jvalue \<Rightarrow> nat \<Rightarrow> nat \<Rightarrow> post_outcome \<times> nat" where
  "demo_post url payload timeout n =
     (Responded (Response 200 (Some (JObject [(''response'', JString ''stub response'')]))),
      Suc n)"

definition demo :: "nat env" where
  "demo = \<lparr>subprocess_run = demo_run, requests_post = demo_post\<rparr>"

definition demo_world :: "nat world" where
  "demo_world = \<lparr>self = init_default, calls = [], ext = 0\<rparr>"

text \<open>
  The states of the run on branch \<^verbatim>\<open>cleanup\<close>: after the listing, and after the body of the
  loop has failed on \<^verbatim>\<open>old.py\<close>.
\<close>

definition cleanup_listed :: "nat world" where
  "cleanup_listed = snd (changed_files demo ''cleanup'' ''main'' demo_world)"

definition cleanup_failed :: "nat world" where
  "cleanup_failed = snd (review_body demo ''cleanup'' ''main'' ''old.py'' cleanup_listed)"

text \<open>
  The same repository and model behind an environment without state, and a bot with
  another configuration: a second run to compare the first with.
\<close>

definition demo_stateless :: "unit env" where
  "demo_stateless =
     \<lparr>subprocess_run = (\<lambda>cmd cwd u. (fst (demo_run cmd cwd 0), ())),
      requests_post = (\<lambda>url payload timeout u. (fst (demo_post url payload timeout 0), ()))\<rparr>"

definition other_world :: "unit world" where
  "other_world =
     \<lparr>self = init ''/srv/repo'' ''mistral'' ''http://ollama:11434/api/generate'',
      calls = [], ext = ()\<rparr>"

text \<open>The repository above with a model endpoint that gives one fixed answer to every request.\<close>

definition answering :: "post_outcome \<Rightarrow> nat env" where
  "answering out =
     \<lparr>subprocess_run = demo_run, requests_post = (\<lambda>url payload timeout n. (out, Suc n))\<rparr>"

text \<open>
  The repository above with a model endpoint that breaks down: it answers the first
  request and gives a server error from then on. In a run on branch \<^verbatim>\<open>feature\<close> the calls
  are the listing, then diff, content and model request of the first file (the external
  state is 3 when the request is made), then those of the second file (state 6).
\<close>

definition flaky_post :: "string \<Rightarrow> jvalue \<Rightarrow> nat \<Rightarrow> nat \<Rightarrow> post_outcome \<times> nat" where
  "flaky_post url payload timeout n =
     (if n < 4
        then (Responded (Response 200 (Some (JObject [(''response'', JString ''first review'')]))),
              Suc n)
      else (Responded (Response 500 None), Suc n))"

definition flaky :: "nat env" where
  "flaky = \<lparr>subprocess_run = demo_run, requests_post = flaky_post\<rparr>"

text \<open>
  The states of the run on branch \<^verbatim>\<open>feature\<close> with the endpoint that breaks down: after the
  listing, after the first file, after diff and content of the second file, and after the
  failed request.
\<close>

definition flaky_listed :: "nat world" where
  "flaky_listed = snd (changed_files flaky ''feature'' ''main'' demo_world)"

definition flaky_first :: "nat world" where
  "flaky_first = snd (review_loop flaky ''feature'' ''main'' [''hello.py''] [] flaky_listed)"

definition flaky_diffed :: "nat world" where
  "flaky_diffed = snd (file_diff flaky ''feature'' ''main'' ''lib/util.py'' flaky_first)"

definition flaky_fetched :: "nat world" where
  "flaky_fetched = snd (file_content flaky ''feature'' ''lib/util.py'' flaky_diffed)"

definition flaky_failed :: "nat world" where
  "flaky_failed =
     snd (analyze flaky ''lib/util.py'' ''text'' ''text'' ''feature'' ''main'' flaky_fetched)"

text \<open>
  A file with a line of four spaces, and the patch that introduced it, with a context
  line for the empty second line of the file (a single space, as \<^verbatim>\<open>git diff\<close> prints it).
\<close>

definition sample_content :: string where
  "sample_content =
     ''import os\<newline>\<newline>def f():\<newline>    x = 1\<newline>    \<newline>    return x\<newline>''"

definition sample_diff :: string where
  "sample_diff =
     ''@@ -1,4 +1,6 @@\<newline> import os\<newline> \<newline> def f():\<newline>-    return 1\<newline>+    x = 1\<newline>+    \<newline>+    return x\<newline>''"

subsection \<open>Notions used in the proofs\<close>

text \<open>
  Sequencing of two steps, the second of which runs only when the first has not raised:
  what the nested \<open>case\<close> expressions of the methods above amount to.
\<close>

definition bindE ::
  "('w \<Rightarrow> (error + 'a) \<times> 'w) \<Rightarrow> ('a \<Rightarrow> 'w \<Rightarrow> (error + 'b) \<times> 'w) \<Rightarrow> 'w \<Rightarrow> (error + 'b) \<times> 'w" where
  "bindE m f w = (case m w of (Inl e, w') \<Rightarrow> (Inl e, w') | (Inr x, w') \<Rightarrow> f x w')"

text \<open>A step that only ever appends to the log of calls.\<close>

definition extends :: "('x world \<Rightarrow> 'r \<times> 'x world) \<Rightarrow> bool" where
  "extends m \<longleftrightarrow> (\<forall>w. prefix (calls w) (calls (snd (m w))))"

text \<open>
  Two steps (possibly in different environments) such that, whenever the answers they
  receive are the same, call after call, their results are the same. The lists \<open>t1\<close> and
  \<open>t2\<close> stand for the calls of whatever runs after the two steps.
\<close>

definition answer_driven ::
  "('x world \<Rightarrow> 'r \<times> 'x world) \<Rightarrow> ('y world \<Rightarrow> 'r \<times> 'y world) \<Rightarrow> bool" where
  "answer_driven m1 m2 \<longleftrightarrow>
     (\<forall>w1 w2 t1 t2.
        map answer (new_calls w1 (snd (m1 w1)) @ t1) = map answer (new_calls w2 (snd (m2 w2)) @ t2)
        \<longrightarrow> fst (m1 w1) = fst (m2 w2) \<and> map answer t1 = map answer t2)"

text \<open>
  What \<^verbatim>\<open>_run_git\<close> and \<^verbatim>\<open>_call_model\<close> make of the collaborator's answer: the part of
  \<open>run_git\<close> and \<open>call_model\<close> after the call itself.
\<close>

definition git_result :: "string list \<Rightarrow> proc_outcome \<Rightarrow> error + string" where
  "git_result cmd out =
     (case out of
        InvalidArgument msg \<Rightarrow> Inl (ValueError msg)
      | SpawnError msg \<Rightarrow> Inl (OSError msg)
      | Undecodable msg \<Rightarrow> Inl (UnicodeDecodeError msg)
      | Ran p \<Rightarrow>
          if returncode p \<noteq> 0
          then Inl (CalledProcessError (returncode p) cmd (stdout p) (stderr p))
          else Inr (stdout p))"

definition model_result :: "post_outcome \<Rightarrow> error + jvalue" where
  "model_result out =
     (case out of
        RequestFailed msg \<Rightarrow> Inl (RequestException msg)
      | Responded r \<Rightarrow>
          (case raise_for_status r of
             Some status \<Rightarrow> Inl (HTTPError status)
           | None \<Rightarrow>
               (case json r of
                  None \<Rightarrow> Inl JSONDecodeError
                | Some (JObject items) \<Rightarrow>
                    (case map_of items ''response'' of
                       None \<Rightarrow> Inr (JString [])
                     | Some v \<Rightarrow> Inr v)
                | Some _ \<Rightarrow> Inl AttributeError)))"

section \<open>Properties\<close>

subsection \<open>The two primitive calls\<close>

lemma run_git_self: "self (snd (run_git E args w)) = self w"
  by (simp add: run_git_def Let_def split: prod.splits proc_outcome.splits)

lemma run_git_calls:
  "\<exists>out. calls (snd (run_git E args w)) =
     calls w @ [SubprocessRun (''git'' # args) (repo_path (self w)) out]"
  by (simp add: run_git_def Let_def split: prod.splits proc_outcome.splits)



lemma call_model_self: "self (snd (call_model E prompt w)) = self w"
  by (simp add: call_model_def Let_def
      split: prod.splits post_outcome.splits option.splits jvalue.splits)



lemma call_model_calls:
  "\<exists>ev. is_post ev \<and> calls (snd (call_model E prompt w)) = calls w @ [ev]"
  by (simp add: call_model_def Let_def
      split: prod.splits post_outcome.splits option.splits jvalue.splits)

lemma run_git_selfD: "run_git E args w = (r, w') \<Longrightarrow> self w' = self w"
  using run_git_self [of E args w] by simp

lemma call_model_selfD: "call_model E prompt w = (r, w') \<Longrightarrow> self w' = self w"
  using call_model_self [of E prompt w] by simp

lemma run_git_one_call: "run_git E args w = (r, w') \<Longrightarrow> \<exists>ev. calls w' = calls w @ [ev]"
  using run_git_calls [of E args w] by auto

lemma call_model_one_call: "call_model E prompt w = (r, w') \<Longrightarrow> \<exists>ev. calls w' = calls w @ [ev]"
  using call_model_calls [of E prompt w] by auto

text \<open>
  When the command was run, or could not be started, a failure of \<open>run_git\<close> is a
  \<open>VcsError\<close>.
\<close>

lemma run_git_VcsError:
  assumes "fst (run_git E args w) = Inl e"
      and "(\<exists>msg. fst (subprocess_run E (''git'' # args) (repo_path (self w)) (ext w)) = SpawnError msg)
           \<or> (\<exists>p. fst (subprocess_run E (''git'' # args) (repo_path (self w)) (ext w)) = Ran p)"
  shows "is_VcsError e"
  using assms
  by (cases "subprocess_run E (''git'' # args) (repo_path (self w)) (ext w)")
    (auto simp add: run_git_def Let_def split: proc_outcome.splits if_splits)

subsection \<open>The listing, the loop body and the loop\<close>

lemma changed_files_self: "self (snd (changed_files E s t w)) = self w"
  by (auto simp add: changed_files_def split: prod.splits sum.splits dest: run_git_selfD)

lemma changed_files_calls:
  "\<exists>out. calls (snd (changed_files E s t w)) =
     calls w @ [SubprocessRun [''git'', ''diff'', ''--name-only'', t @ ''..'' @ s]
                  (repo_path (self w)) out]"
  using run_git_calls [of E "[''diff'', ''--name-only'', t @ ''..'' @ s]" w]
  by (auto simp add: changed_files_def split: prod.splits sum.splits)

lemma changed_files_error:
  "fst (changed_files E s t w) = Inl e
   \<Longrightarrow> fst (run_git E [''diff'', ''--name-only'', t @ ''..'' @ s] w) = Inl e"
  by (auto simp add: changed_files_def split: prod.splits sum.splits)

lemma review_body_self: "self (snd (review_body E s t p w)) = self w"
proof -
  obtain r1 w1 where d: "file_diff E s t p w = (r1, w1)" by (cases "file_diff E s t p w")
  obtain r2 w2 where c: "file_content E s p w1 = (r2, w2)" by (cases "file_content E s p w1")
  have s1: "self w1 = self w"
    using d by (simp add: file_diff_def run_git_selfD)
  have s2: "self w2 = self w"
    using c s1 run_git_selfD [of E _ w1 r2 w2] by (simp add: file_content_def)
  have s3: "self (snd (analyze E p a b s t w2)) = self w" for a b
    using s2 by (simp add: analyze_def call_model_self)
  show ?thesis
  proof (cases r1)
    case (Inl e)
    with d s1 show ?thesis by (simp add: review_body_def)
  next
    case diff: (Inr a)
    show ?thesis
    proof (cases r2)
      case (Inl e)
      with d c diff s2 show ?thesis by (simp add: review_body_def)
    next
      case (Inr b)
      with d c diff s3 [of a b] show ?thesis
        by (auto simp add: review_body_def split: prod.splits sum.splits)
    qed
  qed
qed

lemma review_body_path: "fst (review_body E s t p w) = Inr r \<Longrightarrow> path r = p"
  by (auto simp add: review_body_def split: prod.splits sum.splits)

text \<open>The three ways in which the body of the loop fails, and nothing is called after.\<close>

lemma review_body_fails:
  assumes "file_diff E s t p w = (Inl e, w')
           \<or> (\<exists>d v. file_diff E s t p w = (Inr d, v) \<and> file_content E s p v = (Inl e, w'))
           \<or> (\<exists>d v c v'. file_diff E s t p w = (Inr d, v) \<and> file_content E s p v = (Inr c, v')
                 \<and> analyze E p d c s t v' = (Inl e, w'))"
  shows "review_body E s t p w = (Inl e, w')"
  using assms by (auto simp add: review_body_def)

lemma review_body_fails_calls:
  assumes "file_diff E s t p w = (Inl e, w')
           \<or> (\<exists>d v. file_diff E s t p w = (Inr d, v) \<and> file_content E s p v = (Inl e, w'))
           \<or> (\<exists>d v c v'. file_diff E s t p w = (Inr d, v) \<and> file_content E s p v = (Inr c, v')
                 \<and> analyze E p d c s t v' = (Inl e, w'))"
  shows "length (new_calls w w') \<le> 3"
proof -
  consider (diff) "file_diff E s t p w = (Inl e, w')"
    | (content) d v where "file_diff E s t p w = (Inr d, v)" "file_content E s p v = (Inl e, w')"
    | (model) d v c v' where "file_diff E s t p w = (Inr d, v)"
        "file_content E s p v = (Inr c, v')" "analyze E p d c s t v' = (Inl e, w')"
    using assms by blast
  then show ?thesis
  proof cases
    case diff
    then obtain ev where "calls w' = calls w @ [ev]"
      unfolding file_diff_def by (blast dest: run_git_one_call)
    then show ?thesis by (simp add: new_calls_def)
  next
    case content
    then obtain ev1 ev2 where "calls v = calls w @ [ev1]" "calls w' = calls v @ [ev2]"
      unfolding file_diff_def file_content_def by (blast dest: run_git_one_call)
    then show ?thesis by (simp add: new_calls_def)
  next
    case model
    then obtain ev1 ev2 ev3 where "calls v = calls w @ [ev1]" "calls v' = calls v @ [ev2]"
      "calls w' = calls v' @ [ev3]"
      unfolding file_diff_def file_content_def analyze_def
      by (blast dest: run_git_one_call call_model_one_call)
    then show ?thesis by (simp add: new_calls_def)
  qed
qed

lemma review_loop_self: "self (snd (review_loop E s t files acc w)) = self w"
proof (induction files arbitrary: acc w)
  case Nil
  show ?case by simp
next
  case (Cons p files)
  show ?case
  proof (cases "review_body E s t p w")
    case (Pair r w1)
    then have "self w1 = self w" using review_body_self [of E s t p w] by simp
    with Pair Cons.IH show ?thesis by (simp split: sum.splits)
  qed
qed

lemma review_loop_append:
  "review_loop E s t (xs @ ys) acc w =
     (case review_loop E s t xs acc w of
        (Inl e, w') \<Rightarrow> (Inl e, w')
      | (Inr rs, w') \<Rightarrow> review_loop E s t ys rs w')"
  by (induction xs arbitrary: acc w) (simp_all split: prod.splits sum.splits)

lemma review_loop_paths:
  "fst (review_loop E s t files acc w) = Inr rs \<Longrightarrow> map path rs = map path acc @ files"
proof (induction files arbitrary: acc w)
  case Nil
  then show ?case by simp
next
  case (Cons p files)
  obtain r w1 where b: "review_body E s t p w = (r, w1)" by (cases "review_body E s t p w")
  show ?case
  proof (cases r)
    case (Inl e)
    with b Cons.prems show ?thesis by simp
  next
    case (Inr fr)
    with b have "path fr = p" using review_body_path [of E s t p w fr] by simp
    moreover from b Inr Cons.prems
    have "fst (review_loop E s t files (acc @ [fr]) w1) = Inr rs" by simp
    ultimately show ?thesis using Cons.IH [of "acc @ [fr]" w1] by simp
  qed
qed

lemma review_loop_abort:
  assumes "review_loop E s t pre acc w = (Inr rs, w1)"
      and "review_body E s t p w1 = (Inl e, w2)"
  shows "review_loop E s t (pre @ p # post) acc w = (Inl e, w2)"
  using assms by (simp add: review_loop_append)

lemma new_calls_append: "calls w' = calls w @ evs \<Longrightarrow> new_calls w w' = evs"
  by (simp add: new_calls_def)

lemma review_abort:
  assumes "changed_files E s t w = (Inr (pre @ p # post), w0)"
      and "review_loop E s t pre [] w0 = (Inr rs, w1)"
      and "review_body E s t p w1 = (Inl e, w2)"
  shows "review E s t w = (Inl e, w2)"
  using assms by (simp add: review_def review_loop_abort)



lemma review_body_comments:
  assumes "\<forall>prompt v. fst (call_model E prompt v) = Inr S"
      and "fst (review_body E s t p w) = Inr r"
  shows "comments r = S"
proof -
  have "call_model E prompt v = (Inr c, v') \<Longrightarrow> c = S" for prompt v c v'
    using assms(1) by (metis fst_conv sum.inject(2))
  with assms(2) show ?thesis
    by (auto simp add: review_body_def analyze_def split: prod.splits sum.splits)
qed

lemma review_loop_comments:
  assumes "\<forall>prompt v. fst (call_model E prompt v) = Inr S"
  shows "fst (review_loop E s t files acc w) = Inr rs \<Longrightarrow> list_all (\<lambda>r. comments r = S) acc
         \<Longrightarrow> list_all (\<lambda>r. comments r = S) rs"
proof (induction files arbitrary: acc w)
  case Nil
  then show ?case by simp
next
  case (Cons p files)
  obtain r w1 where b: "review_body E s t p w = (r, w1)" by (cases "review_body E s t p w")
  show ?case
  proof (cases r)
    case (Inl e)
    with b Cons.prems show ?thesis by simp
  next
    case (Inr fr)
    with b have "comments fr = S" using review_body_comments [OF assms, of s t p w fr] by simp
    with Cons.prems(2) have "list_all (\<lambda>r. comments r = S) (acc @ [fr])" by simp
    moreover from b Inr Cons.prems(1)
    have "fst (review_loop E s t files (acc @ [fr]) w1) = Inr rs" by simp
    ultimately show ?thesis using Cons.IH [of "acc @ [fr]" w1] by simp
  qed
qed

subsection \<open>The result depends on the answers only\<close>

lemma new_calls_same: "new_calls w w = []"
  by (simp add: new_calls_def)

lemma new_calls_trans:
  assumes "prefix (calls w) (calls v)" and "prefix (calls v) (calls u)"
  shows "new_calls w u = new_calls w v @ new_calls v u"
proof -
  from assms obtain a b where "calls v = calls w @ a" and "calls u = calls v @ b"
    by (auto simp add: prefix_def)
  then show ?thesis by (simp add: new_calls_def)
qed

lemma extendsD: "extends m \<Longrightarrow> m w = (r, v) \<Longrightarrow> prefix (calls w) (calls v)"
  by (metis extends_def snd_conv)

lemma extends_return: "extends (\<lambda>w. (x, w))"
  by (simp add: extends_def)

lemma extends_bind:
  assumes "extends m" and "\<And>x. extends (f x)"
  shows "extends (bindE m f)"
  unfolding extends_def
proof
  fix w
  obtain r v where mw: "m w = (r, v)" by (cases "m w")
  have pv: "prefix (calls w) (calls v)" using assms(1) mw by (rule extendsD)
  show "prefix (calls w) (calls (snd (bindE m f w)))"
  proof (cases r)
    case (Inl e)
    with mw pv show ?thesis by (simp add: bindE_def)
  next
    case (Inr x)
    have "prefix (calls v) (calls (snd (f x v)))"
      using assms(2) [of x] by (simp add: extends_def)
    with pv mw Inr show ?thesis by (simp add: bindE_def)
  qed
qed

lemma answer_driven_return: "answer_driven (\<lambda>w. (x, w)) (\<lambda>w. (x, w))"
  by (simp add: answer_driven_def new_calls_same)

lemma answer_driven_bind:
  assumes m: "answer_driven m1 m2" and f: "\<And>x. answer_driven (f1 x) (f2 x)"
    and e1: "extends m1" and e2: "extends m2"
    and ef1: "\<And>x. extends (f1 x)" and ef2: "\<And>x. extends (f2 x)"
  shows "answer_driven (bindE m1 f1) (bindE m2 f2)"
  unfolding answer_driven_def
proof (intro allI impI)
  fix w1 w2 t1 t2
  assume eq: "map answer (new_calls w1 (snd (bindE m1 f1 w1)) @ t1) =
              map answer (new_calls w2 (snd (bindE m2 f2 w2)) @ t2)"
  obtain r1 v1 where m1: "m1 w1 = (r1, v1)" by (cases "m1 w1")
  obtain r2 v2 where m2: "m2 w2 = (r2, v2)" by (cases "m2 w2")
  define u1 where "u1 = snd (bindE m1 f1 w1)"
  define u2 where "u2 = snd (bindE m2 f2 w2)"
  have p1: "prefix (calls w1) (calls v1)" using e1 m1 by (rule extendsD)
  have p2: "prefix (calls w2) (calls v2)" using e2 m2 by (rule extendsD)
  have q1: "prefix (calls v1) (calls u1)"
    using m1 ef1 by (cases r1) (simp_all add: u1_def bindE_def extends_def)
  have q2: "prefix (calls v2) (calls u2)"
    using m2 ef2 by (cases r2) (simp_all add: u2_def bindE_def extends_def)
  have "map answer (new_calls w1 v1 @ (new_calls v1 u1 @ t1)) =
        map answer (new_calls w2 v2 @ (new_calls v2 u2 @ t2))"
    using eq new_calls_trans [OF p1 q1] new_calls_trans [OF p2 q2]
    by (simp add: u1_def u2_def)
  with m m1 m2 have r: "r1 = r2"
    and rest: "map answer (new_calls v1 u1 @ t1) = map answer (new_calls v2 u2 @ t2)"
    unfolding answer_driven_def by (metis fst_conv snd_conv)+
  show "fst (bindE m1 f1 w1) = fst (bindE m2 f2 w2) \<and> map answer t1 = map answer t2"
  proof (cases r1)
    case (Inl e)
    with r m1 m2 have "u1 = v1" "u2 = v2" by (auto simp add: u1_def u2_def bindE_def)
    with rest Inl r m1 m2 show ?thesis by (auto simp add: bindE_def new_calls_same)
  next
    case (Inr x)
    with r m1 m2 have "u1 = snd (f1 x v1)" "u2 = snd (f2 x v2)"
      by (auto simp add: u1_def u2_def bindE_def)
    with rest f [of x] have "fst (f1 x v1) = fst (f2 x v2) \<and> map answer t1 = map answer t2"
      unfolding answer_driven_def by blast
    with Inr r m1 m2 show ?thesis by (auto simp add: bindE_def)
  qed
qed

lemma extends_run_git: "extends (run_git E args)"
  unfolding extends_def
proof
  fix w
  obtain out where "calls (snd (run_git E args w)) =
      calls w @ [SubprocessRun (''git'' # args) (repo_path (self w)) out]"
    using run_git_calls [of E args w] by blast
  then show "prefix (calls w) (calls (snd (run_git E args w)))" by simp
qed

lemma extends_call_model: "extends (call_model E prompt)"
  unfolding extends_def
proof
  fix w
  obtain ev where "calls (snd (call_model E prompt w)) = calls w @ [ev]"
    using call_model_calls [of E prompt w] by blast
  then show "prefix (calls w) (calls (snd (call_model E prompt w)))" by simp
qed

lemma run_git_alt:
  "run_git E args w =
     (case subprocess_run E (''git'' # args) (repo_path (self w)) (ext w) of
        (out, x') \<Rightarrow>
          (git_result (''git'' # args) out,
           w\<lparr>calls := calls w @ [SubprocessRun (''git'' # args) (repo_path (self w)) out],
             ext := x'\<rparr>))"
  by (simp add: run_git_def git_result_def Let_def split: prod.splits proc_outcome.splits)

lemma run_git_answer:
  "\<exists>out. fst (run_git E args w) = git_result (''git'' # args) out
     \<and> new_calls w (snd (run_git E args w)) = [SubprocessRun (''git'' # args) (repo_path (self w)) out]"
  by (cases "subprocess_run E (''git'' # args) (repo_path (self w)) (ext w)")
    (simp add: run_git_alt new_calls_def)

lemma call_model_alt:
  "call_model E prompt w =
     (case requests_post E (endpoint (self w))
             (JObject [(''model'', JString (model (self w))), (''prompt'', JString prompt),
                       (''stream'', JBool False)]) 300 (ext w) of
        (out, x') \<Rightarrow>
          (model_result out,
           w\<lparr>calls := calls w @
               [RequestsPost (endpoint (self w))
                  (JObject [(''model'', JString (model (self w))), (''prompt'', JString prompt),
                            (''stream'', JBool False)]) 300 out],
             ext := x'\<rparr>))"
  by (simp add: call_model_def model_result_def Let_def
      split: prod.splits post_outcome.splits option.splits jvalue.splits)

lemma call_model_answer:
  "\<exists>url payload out. fst (call_model E prompt w) = model_result out
     \<and> new_calls w (snd (call_model E prompt w)) = [RequestsPost url payload 300 out]"
  by (cases "requests_post E (endpoint (self w))
             (JObject [(''model'', JString (model (self w))), (''prompt'', JString prompt),
                       (''stream'', JBool False)]) 300 (ext w)")
    (simp add: call_model_alt new_calls_def)

lemma answer_driven_run_git: "answer_driven (run_git E1 args) (run_git E2 args)"
  unfolding answer_driven_def
proof (intro allI impI)
  fix w1 :: "'a world" and w2 :: "'b world" and t1 t2
  assume eq: "map answer (new_calls w1 (snd (run_git E1 args w1)) @ t1) =
              map answer (new_calls w2 (snd (run_git E2 args w2)) @ t2)"
  obtain o1 where a: "fst (run_git E1 args w1) = git_result (''git'' # args) o1"
    "new_calls w1 (snd (run_git E1 args w1)) =
       [SubprocessRun (''git'' # args) (repo_path (self w1)) o1]"
    using run_git_answer [of E1 args w1] by blast
  obtain o2 where b: "fst (run_git E2 args w2) = git_result (''git'' # args) o2"
    "new_calls w2 (snd (run_git E2 args w2)) =
       [SubprocessRun (''git'' # args) (repo_path (self w2)) o2]"
    using run_git_answer [of E2 args w2] by blast
  from eq a(2) b(2) have "o1 = o2" and "map answer t1 = map answer t2" by simp_all
  with a(1) b(1)
  show "fst (run_git E1 args w1) = fst (run_git E2 args w2) \<and> map answer t1 = map answer t2"
    by simp
qed

lemma answer_driven_call_model: "answer_driven (call_model E1 p1) (call_model E2 p2)"
  unfolding answer_driven_def
proof (intro allI impI)
  fix w1 :: "'a world" and w2 :: "'b world" and t1 t2
  assume eq: "map answer (new_calls w1 (snd (call_model E1 p1 w1)) @ t1) =
              map answer (new_calls w2 (snd (call_model E2 p2 w2)) @ t2)"
  obtain u1 y1 o1 where a: "fst (call_model E1 p1 w1) = model_result o1"
    "new_calls w1 (snd (call_model E1 p1 w1)) = [RequestsPost u1 y1 300 o1]"
    using call_model_answer [of E1 p1 w1] by blast
  obtain u2 y2 o2 where b: "fst (call_model E2 p2 w2) = model_result o2"
    "new_calls w2 (snd (call_model E2 p2 w2)) = [RequestsPost u2 y2 300 o2]"
    using call_model_answer [of E2 p2 w2] by blast
  from eq a(2) b(2) have "o1 = o2" and "map answer t1 = map answer t2" by simp_all
  with a(1) b(1)
  show "fst (call_model E1 p1 w1) = fst (call_model E2 p2 w2) \<and> map answer t1 = map answer t2"
    by simp
qed

lemma changed_files_bind:
  "changed_files E s t =
     bindE (run_git E [''diff'', ''--name-only'', t @ ''..'' @ s])
       (\<lambda>out w. (Inr (map strip (filter (\<lambda>line. strip line \<noteq> []) (splitlines out))), w))"
  by (rule ext) (simp add: changed_files_def bindE_def split: prod.splits sum.splits)

lemma review_body_bind:
  "review_body E s t p =
     bindE (file_diff E s t p) (\<lambda>diff.
       bindE (file_content E s p) (\<lambda>content.
         bindE (analyze E p diff content s t) (\<lambda>c w. (Inr \<lparr>path = p, comments = c\<rparr>, w))))"
  by (rule ext) (simp add: review_body_def bindE_def split: prod.splits sum.splits)

lemma review_loop_bind:
  "review_loop E s t (p # files) acc =
     bindE (review_body E s t p) (\<lambda>r. review_loop E s t files (acc @ [r]))"
  by (rule ext) (simp add: bindE_def split: prod.splits sum.splits)

lemma review_bind:
  "review E s t = bindE (changed_files E s t) (\<lambda>files. review_loop E s t files [])"
  by (rule ext) (simp add: review_def bindE_def split: prod.splits sum.splits)

lemma extends_changed_files: "extends (changed_files E s t)"
  unfolding changed_files_bind by (intro extends_bind extends_run_git extends_return)

lemma extends_review_body: "extends (review_body E s t p)"
  unfolding review_body_bind file_diff_def file_content_def analyze_def
  by (intro extends_bind extends_run_git extends_call_model extends_return)

lemma extends_review_loop: "extends (review_loop E s t files acc)"
proof (induction files arbitrary: acc)
  case Nil
  show ?case by (simp add: extends_def)
next
  case (Cons p files)
  show ?case
    unfolding review_loop_bind by (intro extends_bind extends_review_body Cons.IH)
qed

lemma answer_driven_changed_files:
  "answer_driven (changed_files E1 s t) (changed_files E2 s t)"
  unfolding changed_files_bind
  by (intro answer_driven_bind answer_driven_run_git answer_driven_return
      extends_run_git extends_return)

lemma answer_driven_review_body:
  "answer_driven (review_body E1 s t p) (review_body E2 s t p)"
  unfolding review_body_bind file_diff_def file_content_def analyze_def
  by (intro answer_driven_bind answer_driven_run_git answer_driven_call_model
      answer_driven_return extends_bind extends_run_git extends_call_model extends_return)

lemma answer_driven_review_loop:
  "answer_driven (review_loop E1 s t files acc) (review_loop E2 s t files acc)"
proof (induction files arbitrary: acc)
  case Nil
  show ?case by (simp add: answer_driven_def new_calls_same)
next
  case (Cons p files)
  show ?case
    unfolding review_loop_bind
    by (intro answer_driven_bind answer_driven_review_body Cons.IH
        extends_review_body extends_review_loop)
qed

lemma answer_driven_review: "answer_driven (review E1 s t) (review E2 s t)"
  unfolding review_bind
  by (intro answer_driven_bind answer_driven_changed_files answer_driven_review_loop
      extends_changed_files extends_review_loop)

subsection \<open>The library functions on sample texts\<close>

text \<open>The values are those CPython 3.11 computes for the same arguments.\<close>

lemma dedent_examples:
  "dedent ''\<newline>    a\<newline>      b\<newline>   \<newline>    c\<newline>    '' = ''\<newline>a\<newline>  b\<newline>\<newline>c\<newline>''"
  "dedent (''  x\<newline> \<newline>'' @ [CHR 0x09] @ ''y'') = ''  x\<newline>\<newline>'' @ [CHR 0x09] @ ''y''"
  "dedent ([CHR 0x09] @ '' a\<newline>'' @ [CHR 0x09] @ ''  b\<newline>'' @ [CHR 0x09]) = ''a\<newline> b\<newline>''"
  "dedent ''  a\<newline> b\<newline>   c'' = '' a\<newline>b\<newline>  c''"
  by code_simp+

lemma splitlines_examples:
  "splitlines ''a.py\<newline>  b.py \<newline>\<newline>c'' = [''a.py'', ''  b.py '', [], ''c'']"
  "splitlines (''a'' @ [CHR 0x0D, CHR 0x0A] @ ''b'' @ [CHR 0x0D] @ ''c'' @ [CHR 0x1F] @ ''d''
      @ [CHR 0x85] @ ''e'' @ [CHR 0xA0] @ ''f'')
     = [''a'', ''b'', ''c'' @ [CHR 0x1F] @ ''d'', ''e'' @ [CHR 0xA0] @ ''f'']"
  "splitlines ''a\<newline>'' = [''a'']"
  "splitlines [] = []"
  by code_simp+

text \<open>
  The prompt built for the sample file and patch. The template keeps its indentation,
  because lines of the file and of the patch start in the first column; the line of four
  spaces of the file and the context line of the patch have become empty lines.
\<close>

lemma sample_prompt:
  "build_prompt ''app.py'' sample_diff sample_content ''feature'' ''main'' =
     ''You are an expert software engineer assisting with pull request reviews.\<newline>'' @
     ''            Compare two branches: main (base) and feature (feature).\<newline>'' @
     ''            A developer has changed the file `app.py`. You are given the full\<newline>'' @
     ''            content of the file from the feature branch along with the diff patch\<newline>'' @
     ''            between the base and feature branch. Consider the entire file but limit\<newline>'' @
     ''            your comments strictly to lines that are part of the diff. Highlight\<newline>'' @
     ''            potential bugs, wrong logic, bad coding practices, and opportunities for\<newline>'' @
     ''            improvement. Be concise and reference line numbers from the patch when\<newline>'' @
     ''            possible.\<newline>'' @
     ''\<newline>'' @
     ''            <file_content>\<newline>'' @
     ''            import os\<newline>'' @
     ''\<newline>'' @
     ''def f():\<newline>'' @
     ''    x = 1\<newline>'' @
     ''\<newline>'' @
     ''    return x\<newline>'' @
     ''\<newline>'' @
     ''            </file_content>\<newline>'' @
     ''\<newline>'' @
     ''            <diff_patch>\<newline>'' @
     ''            @@ -1,4 +1,6 @@\<newline>'' @
     '' import os\<newline>'' @
     ''\<newline>'' @
     '' def f():\<newline>'' @
     ''-    return 1\<newline>'' @
     ''+    x = 1\<newline>'' @
     ''+    \<newline>'' @
     ''+    return x\<newline>'' @
     ''\<newline>'' @
     ''            </diff_patch>\<newline>'' @
     ''\<newline>'' @
     ''            Provide your review now.''"
  by code_simp

subsection \<open>Runs in the concrete environment\<close>

lemma demo_changed_feature:
  "fst (changed_files demo ''feature'' ''main'' demo_world) = Inr [''hello.py'', ''lib/util.py'']"
  by code_simp

lemma demo_review_feature:
  "fst (review demo ''feature'' ''main'' demo_world) =
     Inr [\<lparr>path = ''hello.py'', comments = JString ''stub response''\<rparr>,
          \<lparr>path = ''lib/util.py'', comments = JString ''stub response''\<rparr>]"
  by code_simp

lemma demo_cleanup_listed:
  "changed_files demo ''cleanup'' ''main'' demo_world =
     (Inr ([] @ ''old.py'' # [''hello.py'']), cleanup_listed)"
  unfolding cleanup_listed_def by code_simp

lemma demo_cleanup_body:
  "review_body demo ''cleanup'' ''main'' ''old.py'' cleanup_listed =
     (Inl (CalledProcessError 128 [''git'', ''show'', ''cleanup:old.py''] ''''
        ''fatal: path does not exist''), cleanup_failed)"
  unfolding cleanup_failed_def cleanup_listed_def by code_simp

lemma demo_cleanup_diff:
  "file_diff demo ''cleanup'' ''main'' ''old.py'' cleanup_listed =
     (Inr ''text'', snd (file_diff demo ''cleanup'' ''main'' ''old.py'' cleanup_listed))"
  unfolding cleanup_listed_def by code_simp

lemma demo_cleanup_content:
  "file_content demo ''cleanup'' ''old.py''
      (snd (file_diff demo ''cleanup'' ''main'' ''old.py'' cleanup_listed)) =
     (Inl (CalledProcessError 128 [''git'', ''show'', ''cleanup:old.py''] ''''
        ''fatal: path does not exist''), cleanup_failed)"
  unfolding cleanup_failed_def cleanup_listed_def by code_simp

lemma demo_cleanup_calls:
  "calls cleanup_failed =
     [SubprocessRun [''git'', ''diff'', ''--name-only'', ''main..cleanup''] ''.''
        (Ran (CompletedProcess 0 ''old.py\<newline>hello.py\<newline>'' '''')),
      SubprocessRun [''git'', ''diff'', ''main..cleanup'', ''--'', ''old.py''] ''.''
        (Ran (CompletedProcess 0 ''text'' '''')),
      SubprocessRun [''git'', ''show'', ''cleanup:old.py''] ''.''
        (Ran (CompletedProcess 128 '''' ''fatal: path does not exist''))]"
  unfolding cleanup_failed_def cleanup_listed_def by code_simp

lemma demo_nosuch_listing:
  "fst (changed_files demo ''nosuch'' ''main'' demo_world) =
     Inl (CalledProcessError 128 [''git'', ''diff'', ''--name-only'', ''main..nosuch''] ''''
        ''fatal: bad revision'')"
  by code_simp

lemma demo_main_listing: "fst (changed_files demo ''main'' ''main'' demo_world) = Inr []"
  by code_simp

lemma demo_call_model: "\<forall>prompt v. fst (call_model demo prompt v) = Inr (JString ''stub response'')"
  by (simp add: call_model_def demo_def demo_post_def raise_for_status_def)

lemma demo_same_answers:
  "map answer (new_calls demo_world (snd (review demo ''feature'' ''main'' demo_world))) =
   map answer (new_calls other_world (snd (review demo_stateless ''feature'' ''main'' other_world)))"
  by code_simp

lemma demo_nosuch_answer:
  "fst (subprocess_run demo [''git'', ''diff'', ''--name-only'', ''main..nosuch'']
            (repo_path (self demo_world)) (ext demo_world)) =
       Ran (CompletedProcess 128 '''' ''fatal: bad revision'')"
  by code_simp

lemma demo_legacy_listing:
  "fst (changed_files demo ''legacy'' ''main'' demo_world) =
     Inl (UnicodeDecodeError ''invalid start byte'')"
  by code_simp

lemma demo_legacy_review:
  "fst (review demo ''legacy'' ''main'' demo_world) =
     Inl (UnicodeDecodeError ''invalid start byte'')"
  by code_simp

lemma demo_nul_review:
  "fst (review demo [CHR ''v'', CHR ''1'', CHR 0x00] ''main'' demo_world) =
     Inl (ValueError ''embedded null byte'')"
  by code_simp

lemma flaky_listing:
  "changed_files flaky ''feature'' ''main'' demo_world =
     (Inr ([''hello.py''] @ ''lib/util.py'' # []), flaky_listed)"
  unfolding flaky_listed_def by code_simp

lemma flaky_loop:
  "review_loop flaky ''feature'' ''main'' [''hello.py''] [] flaky_listed =
     (Inr [\<lparr>path = ''hello.py'', comments = JString ''first review''\<rparr>], flaky_first)"
  unfolding flaky_first_def flaky_listed_def by code_simp

lemma flaky_diff:
  "file_diff flaky ''feature'' ''main'' ''lib/util.py'' flaky_first = (Inr ''text'', flaky_diffed)"
  unfolding flaky_diffed_def flaky_first_def flaky_listed_def by code_simp

lemma flaky_content:
  "file_content flaky ''feature'' ''lib/util.py'' flaky_diffed = (Inr ''text'', flaky_fetched)"
  unfolding flaky_fetched_def flaky_diffed_def flaky_first_def flaky_listed_def by code_simp

lemma flaky_analyze:
  "analyze flaky ''lib/util.py'' ''text'' ''text'' ''feature'' ''main'' flaky_fetched =
     (Inl (HTTPError 500), flaky_failed)"
  unfolding flaky_failed_def flaky_fetched_def flaky_diffed_def flaky_first_def flaky_listed_def
  by code_simp

section \<open>The claims\<close>

text \<open>
  C1. When the listing of the changed files succeeds with the paths \<open>files\<close> and \<open>review\<close>
  returns a list of reviews, the paths of the reviews are exactly \<open>files\<close>: one review per
  path, in the same order, nothing added, dropped or merged.
\<close>

theorem review_paths_are_changed_files:
  assumes "fst (changed_files E source target w) = Inr files"
      and "fst (review E source target w) = Inr reviews"
  shows "map path reviews = files \<and> length reviews = length files"
proof -
  obtain w0 where cf: "changed_files E source target w = (Inr files, w0)"
    using assms(1) by (cases "changed_files E source target w") simp
  with assms(2) have "fst (review_loop E source target files [] w0) = Inr reviews"
    by (simp add: review_def)
  then have "map path reviews = files"
    using review_loop_paths [of E source target files "[]" w0 reviews] by simp
  then show ?thesis by (metis length_map)
qed

theorem review_paths_are_changed_files_witness:
  "fst (changed_files demo ''feature'' ''main'' demo_world) = Inr [''hello.py'', ''lib/util.py'']
   \<and> fst (review demo ''feature'' ''main'' demo_world) =
       Inr [\<lparr>path = ''hello.py'', comments = JString ''stub response''\<rparr>,
            \<lparr>path = ''lib/util.py'', comments = JString ''stub response''\<rparr>]
   \<and> map path [\<lparr>path = ''hello.py'', comments = JString ''stub response''\<rparr>,
                \<lparr>path = ''lib/util.py'', comments = JString ''stub response''\<rparr>]
       = [''hello.py'', ''lib/util.py'']"
  using review_paths_are_changed_files [OF demo_changed_feature demo_review_feature]
    demo_changed_feature demo_review_feature
  by simp

text \<open>
  C2, as the code has it. The claim that a failure to fetch the content of one file is
  kept to that file does not hold: there is no \<^verbatim>\<open>try\<close> around \<^verbatim>\<open>_file_content\<close>, so the
  exception leaves \<open>review\<close>. When the files before \<open>p\<close> have been reviewed and the diff of
  \<open>p\<close> has been fetched, a failure of \<open>file_content\<close> for \<open>p\<close> is the result of the whole
  call: no list of reviews is returned, and the state is the one the failed call left (the
  files after \<open>p\<close> are never looked at).
\<close>

theorem content_failure_aborts_review:
  assumes "changed_files E source target w = (Inr (pre @ p # post), w0)"
      and "review_loop E source target pre [] w0 = (Inr finished, w1)"
      and "file_diff E source target p w1 = (Inr d, w2)"
      and "file_content E source p w2 = (Inl e, w3)"
  shows "review E source target w = (Inl e, w3)"
proof -
  from assms(3,4) have "review_body E source target p w1 = (Inl e, w3)"
    by (simp add: review_body_def)
  with assms(1,2) show ?thesis
    by (rule review_abort)
qed

theorem content_failure_aborts_review_witness:
  "file_diff demo ''cleanup'' ''main'' ''old.py'' cleanup_listed =
     (Inr ''text'', snd (file_diff demo ''cleanup'' ''main'' ''old.py'' cleanup_listed))
   \<and> file_content demo ''cleanup'' ''old.py''
        (snd (file_diff demo ''cleanup'' ''main'' ''old.py'' cleanup_listed)) =
       (Inl (CalledProcessError 128 [''git'', ''show'', ''cleanup:old.py''] ''''
          ''fatal: path does not exist''), cleanup_failed)
   \<and> review demo ''cleanup'' ''main'' demo_world =
       (Inl (CalledProcessError 128 [''git'', ''show'', ''cleanup:old.py''] ''''
          ''fatal: path does not exist''), cleanup_failed)"
proof -
  have loop: "review_loop demo ''cleanup'' ''main'' [] [] cleanup_listed = (Inr [], cleanup_listed)"
    by simp
  show ?thesis
    using content_failure_aborts_review
      [OF demo_cleanup_listed loop demo_cleanup_diff demo_cleanup_content]
      demo_cleanup_diff demo_cleanup_content
    by simp
qed

text \<open>
  The run that refutes C2 as stated: on branch \<^verbatim>\<open>cleanup\<close> the listing gives \<^verbatim>\<open>old.py\<close> and
  \<^verbatim>\<open>hello.py\<close>; the content of \<^verbatim>\<open>old.py\<close> cannot be fetched; \<open>review\<close> ends with that error
  after three calls to git, none of them about \<^verbatim>\<open>hello.py\<close>, and returns no review.
\<close>

theorem content_failure_counterexample:
  "fst (review demo ''cleanup'' ''main'' demo_world) =
     Inl (CalledProcessError 128 [''git'', ''show'', ''cleanup:old.py''] ''''
        ''fatal: path does not exist'')
   \<and> fst (changed_files demo ''cleanup'' ''main'' demo_world) = Inr [''old.py'', ''hello.py'']
   \<and> calls (snd (review demo ''cleanup'' ''main'' demo_world)) =
     [SubprocessRun [''git'', ''diff'', ''--name-only'', ''main..cleanup''] ''.''
        (Ran (CompletedProcess 0 ''old.py\<newline>hello.py\<newline>'' '''')),
      SubprocessRun [''git'', ''diff'', ''main..cleanup'', ''--'', ''old.py''] ''.''
        (Ran (CompletedProcess 0 ''text'' '''')),
      SubprocessRun [''git'', ''show'', ''cleanup:old.py''] ''.''
        (Ran (CompletedProcess 128 '''' ''fatal: path does not exist''))]"
proof -
  have loop: "review_loop demo ''cleanup'' ''main'' [] [] cleanup_listed = (Inr [], cleanup_listed)"
    by simp
  have "review demo ''cleanup'' ''main'' demo_world =
       (Inl (CalledProcessError 128 [''git'', ''show'', ''cleanup:old.py''] ''''
          ''fatal: path does not exist''), cleanup_failed)"
    using review_abort [OF demo_cleanup_listed loop demo_cleanup_body] .
  then show ?thesis
    using demo_cleanup_calls demo_cleanup_listed by simp
qed

text \<open>
  C3. There is no local recovery and no retry. Let the listing succeed, let the files
  before \<open>p\<close> have been reviewed, and let one of the three calls made for \<open>p\<close> raise \<open>e\<close>:
  the diff; or, after the diff, the content; or, after both, the analysis by the model.
  Then the whole call \<open>review\<close> ends with \<open>e\<close>, whatever exception \<open>e\<close> is: no list of
  reviews is returned, not even of the files already reviewed; the state is the one the
  failed call left, so that nothing runs after it; and between the start of the work on
  \<open>p\<close> and the end of \<open>review\<close> at most three calls were made, each once.
\<close>

theorem review_aborts_on_first_error:
  assumes "changed_files E source target w = (Inr (pre @ p # post), w0)"
      and "review_loop E source target pre [] w0 = (Inr finished, w1)"
      and "file_diff E source target p w1 = (Inl e, w2)
           \<or> (\<exists>d v. file_diff E source target p w1 = (Inr d, v)
                 \<and> file_content E source p v = (Inl e, w2))
           \<or> (\<exists>d v c v'. file_diff E source target p w1 = (Inr d, v)
                 \<and> file_content E source p v = (Inr c, v')
                 \<and> analyze E p d c source target v' = (Inl e, w2))"
  shows "review E source target w = (Inl e, w2) \<and> length (new_calls w1 w2) \<le> 3"
proof -
  have "review_body E source target p w1 = (Inl e, w2)"
    using assms(3) by (rule review_body_fails)
  with assms(1,2) have "review E source target w = (Inl e, w2)"
    by (rule review_abort)
  moreover have "length (new_calls w1 w2) \<le> 3"
    using assms(3) by (rule review_body_fails_calls)
  ultimately show ?thesis by simp
qed

text \<open>
  Two runs. On branch \<^verbatim>\<open>cleanup\<close> the content of the first file cannot be fetched. On
  branch \<^verbatim>\<open>feature\<close>, with the endpoint that breaks down, the first file is reviewed and
  the model request for the second one fails; the review of the first file is not returned.
\<close>

theorem review_aborts_on_first_error_witness:
  "review demo ''cleanup'' ''main'' demo_world =
       (Inl (CalledProcessError 128 [''git'', ''show'', ''cleanup:old.py''] ''''
          ''fatal: path does not exist''), cleanup_failed)
   \<and> review_loop flaky ''feature'' ''main'' [''hello.py''] [] flaky_listed =
       (Inr [\<lparr>path = ''hello.py'', comments = JString ''first review''\<rparr>], flaky_first)
   \<and> analyze flaky ''lib/util.py'' ''text'' ''text'' ''feature'' ''main'' flaky_fetched =
       (Inl (HTTPError 500), flaky_failed)
   \<and> review flaky ''feature'' ''main'' demo_world = (Inl (HTTPError 500), flaky_failed)
   \<and> length (new_calls flaky_first flaky_failed) \<le> 3"
proof -
  have loop: "review_loop demo ''cleanup'' ''main'' [] [] cleanup_listed = (Inr [], cleanup_listed)"
    by simp
  have content: "file_diff demo ''cleanup'' ''main'' ''old.py'' cleanup_listed = (Inl e, w2)
      \<or> (\<exists>d v. file_diff demo ''cleanup'' ''main'' ''old.py'' cleanup_listed = (Inr d, v)
             \<and> file_content demo ''cleanup'' ''old.py'' v = (Inl e, w2))
      \<or> (\<exists>d v c v'. file_diff demo ''cleanup'' ''main'' ''old.py'' cleanup_listed = (Inr d, v)
             \<and> file_content demo ''cleanup'' ''old.py'' v = (Inr c, v')
             \<and> analyze demo ''old.py'' d c ''cleanup'' ''main'' v' = (Inl e, w2))"
    if "e = CalledProcessError 128 [''git'', ''show'', ''cleanup:old.py''] ''''
          ''fatal: path does not exist''" and "w2 = cleanup_failed" for e w2
    using that demo_cleanup_diff demo_cleanup_content by blast
  have model: "file_diff flaky ''feature'' ''main'' ''lib/util.py'' flaky_first = (Inl e, w2)
      \<or> (\<exists>d v. file_diff flaky ''feature'' ''main'' ''lib/util.py'' flaky_first = (Inr d, v)
             \<and> file_content flaky ''feature'' ''lib/util.py'' v = (Inl e, w2))
      \<or> (\<exists>d v c v'. file_diff flaky ''feature'' ''main'' ''lib/util.py'' flaky_first = (Inr d, v)
             \<and> file_content flaky ''feature'' ''lib/util.py'' v = (Inr c, v')
             \<and> analyze flaky ''lib/util.py'' d c ''feature'' ''main'' v' = (Inl e, w2))"
    if "e = HTTPError 500" and "w2 = flaky_failed" for e w2
    using that flaky_diff flaky_content flaky_analyze by blast
  show ?thesis
    using review_aborts_on_first_error [OF demo_cleanup_listed loop content [OF refl refl]]
      review_aborts_on_first_error [OF flaky_listing flaky_loop model [OF refl refl]]
      flaky_loop flaky_analyze
    by simp
qed

text \<open>
  C4, as the code has it. When the listing of the changed files fails with \<open>e\<close>, \<open>review\<close>
  fails with \<open>e\<close>, unchanged, and no call made by \<open>review\<close> is a call to the model. The
  exception is a \<open>VcsError\<close> when git was run (and exited with a status other than zero)
  or could not be started; it is not one for every reason of failure, since \<^verbatim>\<open>_run_git\<close>
  lets the \<^verbatim>\<open>ValueError\<close> and the \<^verbatim>\<open>UnicodeDecodeError\<close> of \<^verbatim>\<open>subprocess.run\<close> pass as they are.
\<close>

theorem listing_failure_propagates:
  assumes "fst (changed_files E source target w) = Inl e"
  shows "fst (review E source target w) = Inl e
         \<and> filter is_post (new_calls w (snd (review E source target w))) = []
         \<and> ((\<exists>msg. fst (subprocess_run E
                       [''git'', ''diff'', ''--name-only'', target @ ''..'' @ source]
                       (repo_path (self w)) (ext w)) = SpawnError msg)
              \<or> (\<exists>p. fst (subprocess_run E
                       [''git'', ''diff'', ''--name-only'', target @ ''..'' @ source]
                       (repo_path (self w)) (ext w)) = Ran p)
            \<longrightarrow> is_VcsError e)"
proof -
  obtain w0 where cf: "changed_files E source target w = (Inl e, w0)"
    using assms by (cases "changed_files E source target w") simp
  then have r: "review E source target w = (Inl e, w0)"
    by (simp add: review_def)
  obtain out where
    "calls w0 = calls w @ [SubprocessRun [''git'', ''diff'', ''--name-only'', target @ ''..'' @ source]
                  (repo_path (self w)) out]"
    using changed_files_calls [of E source target w] cf by auto
  then have "filter is_post (new_calls w w0) = []"
    by (simp add: new_calls_append)
  moreover have "fst (run_git E [''diff'', ''--name-only'', target @ ''..'' @ source] w) = Inl e"
    using assms by (rule changed_files_error)
  then have "(\<exists>msg. fst (subprocess_run E
                       [''git'', ''diff'', ''--name-only'', target @ ''..'' @ source]
                       (repo_path (self w)) (ext w)) = SpawnError msg)
              \<or> (\<exists>p. fst (subprocess_run E
                       [''git'', ''diff'', ''--name-only'', target @ ''..'' @ source]
                       (repo_path (self w)) (ext w)) = Ran p)
            \<longrightarrow> is_VcsError e"
    using run_git_VcsError [of E "[''diff'', ''--name-only'', target @ ''..'' @ source]" w e]
    by simp
  ultimately show ?thesis using r by simp
qed

theorem listing_failure_propagates_witness:
  "fst (changed_files demo ''nosuch'' ''main'' demo_world) =
     Inl (CalledProcessError 128 [''git'', ''diff'', ''--name-only'', ''main..nosuch''] ''''
        ''fatal: bad revision'')
   \<and> fst (review demo ''nosuch'' ''main'' demo_world) =
     Inl (CalledProcessError 128 [''git'', ''diff'', ''--name-only'', ''main..nosuch''] ''''
        ''fatal: bad revision'')
   \<and> filter is_post (new_calls demo_world (snd (review demo ''nosuch'' ''main'' demo_world))) = []
   \<and> fst (subprocess_run demo [''git'', ''diff'', ''--name-only'', ''main..nosuch'']
            (repo_path (self demo_world)) (ext demo_world)) =
       Ran (CompletedProcess 128 '''' ''fatal: bad revision'')
   \<and> is_VcsError (CalledProcessError 128 [''git'', ''diff'', ''--name-only'', ''main..nosuch'']
        '''' ''fatal: bad revision'')"
  using listing_failure_propagates [OF demo_nosuch_listing] demo_nosuch_listing
    demo_nosuch_answer
  by simp

text \<open>
  The runs that refute C4 as stated. The listing of branch \<^verbatim>\<open>legacy\<close> fails because its
  output cannot be decoded, and the listing for a source ref with a NUL character fails
  before git is started; \<open>review\<close> fails with the \<^verbatim>\<open>UnicodeDecodeError\<close> and with the
  \<^verbatim>\<open>ValueError\<close>, neither of them a \<open>VcsError\<close>.
\<close>

theorem listing_failure_counterexample:
  "fst (changed_files demo ''legacy'' ''main'' demo_world) =
     Inl (UnicodeDecodeError ''invalid start byte'')
   \<and> fst (review demo ''legacy'' ''main'' demo_world) =
     Inl (UnicodeDecodeError ''invalid start byte'')
   \<and> \<not> is_VcsError (UnicodeDecodeError ''invalid start byte'')
   \<and> fst (review demo [CHR ''v'', CHR ''1'', CHR 0x00] ''main'' demo_world) =
     Inl (ValueError ''embedded null byte'')
   \<and> \<not> is_VcsError (ValueError ''embedded null byte'')"
  using demo_legacy_listing demo_legacy_review demo_nul_review by simp

text \<open>
  C5. When the listing reports no changed file, \<open>review\<close> returns the empty list, and the
  only call it makes is the listing itself: no call to the model, no diff and no content
  of any file.
\<close>

theorem empty_changeset_makes_no_further_call:
  assumes "fst (changed_files E source target w) = Inr []"
  shows "fst (review E source target w) = Inr []
         \<and> (\<exists>out. new_calls w (snd (review E source target w)) =
               [SubprocessRun [''git'', ''diff'', ''--name-only'', target @ ''..'' @ source]
                  (repo_path (self w)) out])
         \<and> filter is_post (new_calls w (snd (review E source target w))) = []"
proof -
  obtain w0 where cf: "changed_files E source target w = (Inr [], w0)"
    using assms by (cases "changed_files E source target w") simp
  then have r: "review E source target w = (Inr [], w0)"
    by (simp add: review_def)
  obtain out where
    "calls w0 = calls w @ [SubprocessRun [''git'', ''diff'', ''--name-only'', target @ ''..'' @ source]
                  (repo_path (self w)) out]"
    using changed_files_calls [of E source target w] cf by auto
  then have "new_calls w w0 =
      [SubprocessRun [''git'', ''diff'', ''--name-only'', target @ ''..'' @ source]
                  (repo_path (self w)) out]"
    by (simp add: new_calls_append)
  with r show ?thesis by simp
qed

theorem empty_changeset_makes_no_further_call_witness:
  "fst (changed_files demo ''main'' ''main'' demo_world) = Inr []
   \<and> fst (review demo ''main'' ''main'' demo_world) = Inr []
   \<and> filter is_post (new_calls demo_world (snd (review demo ''main'' ''main'' demo_world))) = []"
  using empty_changeset_makes_no_further_call [OF demo_main_listing] demo_main_listing
  by simp

text \<open>
  C6. When the model call returns the same value \<open>S\<close> for every prompt, in every state,
  the \<open>comments\<close> of every review that \<open>review\<close> returns are \<open>S\<close>: the output of the model
  reaches the \<open>FileReview\<close> unchanged, whatever the diff and the content.
\<close>

theorem stubbed_model_passes_through:
  assumes "\<forall>prompt v. fst (call_model E prompt v) = Inr S"
      and "fst (review E source target w) = Inr reviews"
  shows "map comments reviews = replicate (length reviews) S"
proof -
  have "list_all (\<lambda>r. comments r = S) reviews"
    using assms(2) review_loop_comments [OF assms(1), of source target _ "[]" _ reviews]
    by (auto simp add: review_def split: prod.splits sum.splits)
  then show ?thesis
    by (induction reviews) simp_all
qed

theorem stubbed_model_passes_through_witness:
  "(\<forall>prompt v. fst (call_model demo prompt v) = Inr (JString ''stub response''))
   \<and> fst (review demo ''feature'' ''main'' demo_world) =
       Inr [\<lparr>path = ''hello.py'', comments = JString ''stub response''\<rparr>,
            \<lparr>path = ''lib/util.py'', comments = JString ''stub response''\<rparr>]
   \<and> map comments [\<lparr>path = ''hello.py'', comments = JString ''stub response''\<rparr>,
            \<lparr>path = ''lib/util.py'', comments = JString ''stub response''\<rparr>]
       = [JString ''stub response'', JString ''stub response'']"
  using stubbed_model_passes_through [OF demo_call_model demo_review_feature]
    demo_call_model demo_review_feature
  by simp

text \<open>
  C7, at an input where the code does not do what the claim says. \<^verbatim>\<open>_analyze\<close> applies
  \<^verbatim>\<open>textwrap.dedent\<close> to the f-string after the file content and the diff have been
  put into it, and \<^verbatim>\<open>dedent\<close> empties every line made of spaces and tabs only. For the
  sample file and patch the prompt contains neither the content nor the diff as a
  substring; the two ref names are in it.
\<close>

theorem prompt_alters_diff_and_content:
  "\<not> sublist sample_diff (build_prompt ''app.py'' sample_diff sample_content ''feature'' ''main'')
   \<and> \<not> sublist sample_content
         (build_prompt ''app.py'' sample_diff sample_content ''feature'' ''main'')
   \<and> sublist ''feature'' (build_prompt ''app.py'' sample_diff sample_content ''feature'' ''main'')
   \<and> sublist ''main'' (build_prompt ''app.py'' sample_diff sample_content ''feature'' ''main'')"
  unfolding sample_prompt by code_simp

text \<open>
  C8, as the code has it. With \<open>out\<close> the answer of the endpoint to the one request
  \<open>call_model\<close> sends: when the status of the response is not an error status (not in
  400 to 599) and the body parses to an object, \<open>call_model\<close> returns the value of the
  field \<^verbatim>\<open>response\<close>, and the empty string when the object has no such field; when the
  request fails, the status is a client or server error (400 to 599), or the body does not
  parse, it fails with an \<open>InferenceError\<close>. The status is checked by
  \<^verbatim>\<open>raise_for_status\<close> only, so a status that is not a success but not an error status
  either (an unfollowed 3xx) does not make the call fail.
\<close>

theorem call_model_result_by_status:
  assumes "fst (requests_post E (endpoint (self w))
             (JObject [(''model'', JString (model (self w))), (''prompt'', JString prompt),
                       (''stream'', JBool False)]) 300 (ext w)) = out"
  shows "(\<forall>code items v. out = Responded (Response code (Some (JObject items)))
            \<longrightarrow> code < 400 \<or> 600 \<le> code
            \<longrightarrow> map_of items ''response'' = Some v
            \<longrightarrow> fst (call_model E prompt w) = Inr v)
       \<and> (\<forall>code items. out = Responded (Response code (Some (JObject items)))
            \<longrightarrow> code < 400 \<or> 600 \<le> code
            \<longrightarrow> map_of items ''response'' = None
            \<longrightarrow> fst (call_model E prompt w) = Inr (JString ''''))
       \<and> ((\<exists>msg. out = RequestFailed msg)
            \<or> (\<exists>r. out = Responded r
                  \<and> (400 \<le> status_code r \<and> status_code r < 600 \<or> json r = None))
            \<longrightarrow> (\<exists>e. fst (call_model E prompt w) = Inl e \<and> is_InferenceError e))"
proof -
  have r: "fst (call_model E prompt w) = model_result out"
    using assms
    by (cases "requests_post E (endpoint (self w))
             (JObject [(''model'', JString (model (self w))), (''prompt'', JString prompt),
                       (''stream'', JBool False)]) 300 (ext w)")
      (simp add: call_model_alt)
  have a: "out = Responded (Response code (Some (JObject items)))
      \<Longrightarrow> code < 400 \<or> 600 \<le> code
      \<Longrightarrow> map_of items ''response'' = Some v \<Longrightarrow> model_result out = Inr v" for code items v
    by (auto simp add: model_result_def raise_for_status_def)
  have b: "out = Responded (Response code (Some (JObject items)))
      \<Longrightarrow> code < 400 \<or> 600 \<le> code
      \<Longrightarrow> map_of items ''response'' = None \<Longrightarrow> model_result out = Inr (JString '''')"
    for code items
    by (auto simp add: model_result_def raise_for_status_def)
  have c: "out = RequestFailed msg \<Longrightarrow> \<exists>e. model_result out = Inl e \<and> is_InferenceError e" for msg
    by (simp add: model_result_def)
  have d: "out = Responded r
      \<Longrightarrow> 400 \<le> status_code r \<and> status_code r < 600 \<or> json r = None
      \<Longrightarrow> \<exists>e. model_result out = Inl e \<and> is_InferenceError e" for r
    by (auto simp add: model_result_def raise_for_status_def split: option.splits)
  from a b c d show ?thesis
    unfolding r by blast
qed

theorem call_model_result_by_status_witness:
  "fst (call_model (answering (Responded (Response 200
          (Some (JObject [(''model'', JString ''llama3''), (''response'', JString ''Looks good.''),
                          (''done'', JBool True)]))))) ''review this'' demo_world)
     = Inr (JString ''Looks good.'')
   \<and> fst (call_model (answering (Responded (Response 200
          (Some (JObject [(''model'', JString ''llama3''), (''done'', JBool True)])))))
          ''review this'' demo_world)
     = Inr (JString '''')
   \<and> (\<exists>e. fst (call_model (answering (RequestFailed ''connection refused''))
               ''review this'' demo_world) = Inl e \<and> is_InferenceError e)
   \<and> (\<exists>e. fst (call_model (answering (Responded (Response 500 None)))
               ''review this'' demo_world) = Inl e \<and> is_InferenceError e)
   \<and> (\<exists>e. fst (call_model (answering (Responded (Response 404
          (Some (JObject [(''error'', JString ''model not found'')])))))
               ''review this'' demo_world) = Inl e \<and> is_InferenceError e)
   \<and> (\<exists>e. fst (call_model (answering (Responded (Response 200 None)))
               ''review this'' demo_world) = Inl e \<and> is_InferenceError e)"
  using
    call_model_result_by_status [OF refl,
      of "answering (Responded (Response 200
          (Some (JObject [(''model'', JString ''llama3''), (''response'', JString ''Looks good.''),
                          (''done'', JBool True)]))))" demo_world "''review this''"]
    call_model_result_by_status [OF refl,
      of "answering (Responded (Response 200
          (Some (JObject [(''model'', JString ''llama3''), (''done'', JBool True)]))))"
         demo_world "''review this''"]
    call_model_result_by_status [OF refl,
      of "answering (RequestFailed ''connection refused'')" demo_world "''review this''"]
    call_model_result_by_status [OF refl,
      of "answering (Responded (Response 500 None))" demo_world "''review this''"]
    call_model_result_by_status [OF refl,
      of "answering (Responded (Response 404
          (Some (JObject [(''error'', JString ''model not found'')]))))"
         demo_world "''review this''"]
    call_model_result_by_status [OF refl,
      of "answering (Responded (Response 200 None))" demo_world "''review this''"]
  by (simp add: answering_def)

text \<open>
  The call that refutes C8 as stated: the endpoint answers with the status 300, which is
  not a success status, and a body that is a JSON object; \<open>call_model\<close> does not fail, it
  returns the text of the body.
\<close>

theorem non_success_status_counterexample:
  "\<not> is_success_status 300
   \<and> fst (call_model (answering (Responded (Response 300
            (Some (JObject [(''response'', JString ''see the other hosts'')])))))
          ''review this'' demo_world)
     = Inr (JString ''see the other hosts'')"
  by (simp add: is_success_status_def call_model_def answering_def raise_for_status_def)

text \<open>
  C9. \<open>review\<close> is a function of the collaborators' answers: two runs with the same
  source and target, in any two environments, from any two states (even with different
  configurations), in which the collaborators give the same answers call after call,
  end with the same result: the same reviews (paths, order, comments), or the same error.
\<close>

theorem review_determined_by_answers:
  assumes "map answer (new_calls w1 (snd (review E1 source target w1))) =
           map answer (new_calls w2 (snd (review E2 source target w2)))"
  shows "fst (review E1 source target w1) = fst (review E2 source target w2)"
  using assms answer_driven_review [of E1 source target E2]
  unfolding answer_driven_def
  by (metis append_Nil2)

theorem review_determined_by_answers_witness:
  "map answer (new_calls demo_world (snd (review demo ''feature'' ''main'' demo_world))) =
   map answer (new_calls other_world (snd (review demo_stateless ''feature'' ''main'' other_world)))
   \<and> fst (review demo ''feature'' ''main'' demo_world) =
      fst (review demo_stateless ''feature'' ''main'' other_world)
   \<and> self demo_world \<noteq> self other_world"
proof -
  have "self demo_world \<noteq> self other_world"
    by (simp add: demo_world_def other_world_def init_default_def init_def)
  then show ?thesis
    using review_determined_by_answers [OF demo_same_answers] demo_same_answers by simp
qed

text \<open>
  C10. No step of the orchestrator changes the bot's configuration: after \<open>review\<close>, and
  after each of the methods it is made of, the object \<open>self\<close> (its \<open>repo_path\<close>, \<open>model\<close> and
  \<open>endpoint\<close>) is what it was before.
\<close>

theorem review_keeps_configuration:
  "self (snd (review E source target w)) = self w
   \<and> self (snd (changed_files E source target w)) = self w
   \<and> self (snd (file_diff E source target p w)) = self w
   \<and> self (snd (file_content E source p w)) = self w
   \<and> self (snd (analyze E p d c source target w)) = self w
   \<and> self (snd (call_model E prompt w)) = self w
   \<and> self (snd (run_git E args w)) = self w"
proof -
  have "self (snd (review E source target w)) = self w"
  proof (cases "changed_files E source target w")
    case (Pair r w0)
    then have "self w0 = self w" using changed_files_self [of E source target w] by simp
    with Pair show ?thesis
      by (cases r) (simp_all add: review_def review_loop_self)
  qed
  then show ?thesis
    by (simp add: changed_files_self file_diff_def file_content_def analyze_def
        call_model_self run_git_self)
qed

end
